theory Spec2Isabelle
  imports Complex_Main
begin

section \<open>Data model\<close>

text \<open>
  The tool facade \<^verbatim>\<open>RAGTools\<close> of \<^verbatim>\<open>src/mcp_server/tools/rag_tools.py\<close> sequences calls
  against a pipeline object that owns a vector table and an embedding client.

  A metadata value is what the facade distinguishes: \<^verbatim>\<open>isinstance(v, str)\<close> or not, and
  \<^verbatim>\<open>None\<close> (what \<^verbatim>\<open>dict.get\<close> gives for a missing key and \<^verbatim>\<open>dropna\<close> removes).
  Python dictionaries keep their insertion order, so a dictionary is an association list;
  a well-formed one has distinct keys.
\<close>

datatype mval = VStr string | VInt int | VNone

type_synonym mdict = "(string \<times> mval) list"

type_synonym vector = "real list"

text \<open>One row of the vector table: the keys \<^verbatim>\<open>"text"\<close>, \<^verbatim>\<open>"vector"\<close>, \<^verbatim>\<open>"metadata"\<close>.\<close>

record row =
  chunk_text :: string
  vector :: vector
  metadata :: mdict

datatype error =
  ConvertError | ChunkError | WriteError | DeleteError | EmbedError | DimError | RetrievalError

text \<open>
  The state the facade works on: the rows of \<^verbatim>\<open>self.pipeline.table\<close>, and the Markdown
  files written below \<^verbatim>\<open>md_dir\<close> (path and content).
\<close>

record rag =
  table :: "row list"
  md_files :: "(string \<times> string) list"

text \<open>
  The external collaborators, which the source only calls: the engine's reading of a
  filter expression (\<open>sat\<close>), whether the engine's delete raises (\<open>delete_raises\<close>), the
  embedding client, the dimension check of the pipeline, the document converter and its
  Markdown export, the segmentation of a document, the file system (the names a directory
  holds, whether a write raises), the pipeline's retrieval and the settings.
\<close>

record 'd env =
  sat :: "string \<Rightarrow> row \<Rightarrow> bool"
  delete_raises :: "string \<Rightarrow> bool"
  embed_query :: "string \<Rightarrow> error + vector"
  validate_vector_dim :: "vector \<Rightarrow> error + unit"
  vector_dim :: nat
  convert :: "string \<Rightarrow> error + 'd"
  export_to_markdown :: "'d \<Rightarrow> error + string"
  segments :: "'d \<Rightarrow> string \<Rightarrow> error + row list"
  listdir :: "string \<Rightarrow> string list"
  write_raises :: "string \<Rightarrow> bool"
  retrieve :: "row list \<Rightarrow> string \<Rightarrow> int option \<Rightarrow> mdict option \<Rightarrow> error + string"
  knowledge_base_path :: string
  kak_tor_base_path :: string
  kak_tor_md_base_path :: string

section \<open>Python helpers\<close>

text \<open>\<^verbatim>\<open>str(i)\<close> of an integer: its decimal digits, with a sign.\<close>

fun str_nat :: "nat \<Rightarrow> string" where
  "str_nat n =
     (if n < 10 then [char_of (48 + n)]
      else str_nat (n div 10) @ [char_of (48 + n mod 10)])"

declare str_nat.simps [simp del]

definition str_int :: "int \<Rightarrow> string" where
  "str_int i = (if i < 0 then ''-'' @ str_nat (nat (- i)) else str_nat (nat i))"

text \<open>\<^verbatim>\<open>sep.join(xs)\<close>.\<close>

fun join :: "string \<Rightarrow> string list \<Rightarrow> string" where
  "join sep [] = []"
| "join sep [x] = x"
| "join sep (x # y # ys) = x @ sep @ join sep (y # ys)"

text \<open>\<^verbatim>\<open>m.get(k)\<close>: the value, or \<^verbatim>\<open>None\<close> when the key is missing.\<close>

definition dict_get :: "mdict \<Rightarrow> string \<Rightarrow> mval" where
  "dict_get m k = (case map_of m k of None \<Rightarrow> VNone | Some v \<Rightarrow> v)"

text \<open>
  \<^verbatim>\<open>d[k] = v\<close>: an existing key keeps its place and takes the new value, a new key goes
  to the end.
\<close>

fun dict_set :: "'k \<Rightarrow> 'v \<Rightarrow> ('k \<times> 'v) list \<Rightarrow> ('k \<times> 'v) list" where
  "dict_set k v [] = [(k, v)]"
| "dict_set k v (p # ps) = (if fst p = k then (k, v) # ps else p # dict_set k v ps)"

text \<open>\<^verbatim>\<open>{**old, **new}\<close>: the items of \<open>new\<close> are stored into a copy of \<open>old\<close>, in order.\<close>

definition dict_merge :: "('k \<times> 'v) list \<Rightarrow> ('k \<times> 'v) list \<Rightarrow> ('k \<times> 'v) list" where
  "dict_merge old new = fold (\<lambda>(k, v) d. dict_set k v d) new old"

section \<open>The vector table\<close>

text \<open>
  The vector table is an external store; the glossary of the specification gives it
  filtered search, delete and add. Its rows are kept as a list. A filtered search with no
  limit returns the rows the engine selects for the filter expression (the query vector
  only ranks them, and the rows are listed here in table order); a delete removes those
  rows, or raises and removes nothing; an add appends.
\<close>

definition table_search :: "'d env \<Rightarrow> vector \<Rightarrow> string \<Rightarrow> row list \<Rightarrow> row list" where
  "table_search env query filter_expr rows = filter (sat env filter_expr) rows"

definition table_delete :: "'d env \<Rightarrow> string \<Rightarrow> row list \<Rightarrow> error + row list" where
  "table_delete env filter_expr rows =
     (if delete_raises env filter_expr then Inl DeleteError
      else Inr (filter (\<lambda>r. \<not> sat env filter_expr r) rows))"

definition table_add :: "row list \<Rightarrow> row list \<Rightarrow> row list" where
  "table_add rows entries = rows @ entries"

definition count_rows :: "row list \<Rightarrow> nat" where
  "count_rows rows = length rows"

section \<open>update\_chunk\_metadata\<close>

text \<open>
  One clause of the filter expression: \<^verbatim>\<open>f"metadata.{k} = {val}"\<close>, where a string value
  is put between single quotes and any other value is formatted by \<^verbatim>\<open>str\<close>.
\<close>

definition format_val :: "mval \<Rightarrow> string" where
  "format_val v =
     (case v of
        VStr s \<Rightarrow> [CHR 0x27] @ s @ [CHR 0x27]
      | VInt i \<Rightarrow> str_int i
      | VNone \<Rightarrow> ''None'')"

definition clause :: "string \<times> mval \<Rightarrow> string" where
  "clause kv = ''metadata.'' @ fst kv @ '' = '' @ format_val (snd kv)"

definition build_filter_expr :: "mdict \<Rightarrow> string" where
  "build_filter_expr metadata_filter = join '' AND '' (map clause metadata_filter)"

text \<open>The entry built from one row of the search result.\<close>

definition updated_entry :: "mdict \<Rightarrow> row \<Rightarrow> row" where
  "updated_entry new_metadata r =
     \<lparr>chunk_text = chunk_text r, vector = vector r,
      metadata = dict_merge (metadata r) new_metadata\<rparr>"

text \<open>
  The rows the search of \<^verbatim>\<open>update_chunk_metadata\<close> returns: the zero vector as query, the
  filter expression, no limit.
\<close>

definition matched :: "'d env \<Rightarrow> mdict \<Rightarrow> rag \<Rightarrow> row list" where
  "matched env metadata_filter s =
     table_search env (replicate (vector_dim env) 0) (build_filter_expr metadata_filter) (table s)"

text \<open>
  \<^verbatim>\<open>update_chunk_metadata\<close>: search; return 0 on an empty result; delete the old rows
  (an exception of the delete is caught and logged); add the rewritten entries; return
  their number. The result is the returned count and the state afterwards.
\<close>

definition update_chunk_metadata :: "'d env \<Rightarrow> mdict \<Rightarrow> mdict \<Rightarrow> rag \<Rightarrow> nat \<times> rag" where
  "update_chunk_metadata env metadata_filter new_metadata s =
     (let filter_expr = build_filter_expr metadata_filter;
          df = matched env metadata_filter s
      in if df = [] then (0, s)
         else
           let s1 = (case table_delete env filter_expr (table s) of
                       Inl e \<Rightarrow> s
                     | Inr rows \<Rightarrow> s\<lparr>table := rows\<rparr>);
               updated_entries = map (updated_entry new_metadata) df
           in (length updated_entries,
               s1\<lparr>table := table_add (table s1) updated_entries\<rparr>))"

section \<open>rebuild\_all\_embeddings\<close>

text \<open>
  Modelled from the spec: \<^verbatim>\<open>RAGPipeline.reset_vectorstore\<close> is not part of the source at
  hand. The facade's \<^verbatim>\<open>reset_knowledge_base\<close> calls it to delete and re-create the whole
  vector store (the "reset" of the specification's overview): the table is empty
  afterwards.
\<close>

definition reset_vectorstore :: "rag \<Rightarrow> rag" where
  "reset_vectorstore s = s\<lparr>table := []\<rparr>"

text \<open>
  The loop of \<^verbatim>\<open>rebuild_all_embeddings\<close> over the rows of \<^verbatim>\<open>to_pandas()\<close>: embed the text,
  validate the vector, append the entry. An exception of either call leaves the loop and
  the function.
\<close>

fun rebuild_loop :: "'d env \<Rightarrow> row list \<Rightarrow> row list \<Rightarrow> error + row list" where
  "rebuild_loop env [] entries = Inr entries"
| "rebuild_loop env (r # rows) entries =
     (case embed_query env (chunk_text r) of
        Inl e \<Rightarrow> Inl e
      | Inr vec \<Rightarrow>
          (case validate_vector_dim env vec of
             Inl e \<Rightarrow> Inl e
           | Inr u \<Rightarrow>
               rebuild_loop env rows
                 (entries @ [\<lparr>chunk_text = chunk_text r, vector = vec, metadata = metadata r\<rparr>])))"

text \<open>
  \<^verbatim>\<open>rebuild_all_embeddings\<close>: build all entries, then reset the store and add them. The
  result is the exception, if one was raised, and the state afterwards.
\<close>

definition rebuild_all_embeddings :: "'d env \<Rightarrow> int \<Rightarrow> rag \<Rightarrow> (error + unit) \<times> rag" where
  "rebuild_all_embeddings env batch_size s =
     (case rebuild_loop env (table s) [] of
        Inl e \<Rightarrow> (Inl e, s)
      | Inr entries \<Rightarrow>
          (let s1 = reset_vectorstore s
           in (Inr (), s1\<lparr>table := table_add (table s1) entries\<rparr>)))"

section \<open>Ingestion\<close>

text \<open>
  \<^verbatim>\<open>path.glob("*.pdf")\<close>: the names of the directory that end in \<^verbatim>\<open>.pdf\<close>, in the order the
  directory lists them. \<^verbatim>\<open>str(path / name)\<close> joins with a slash, and \<^verbatim>\<open>pdf.stem\<close> is the
  name up to its last dot (the whole name when that dot is its first or last character).
\<close>

definition is_pdf :: "string \<Rightarrow> bool" where
  "is_pdf n = (4 \<le> length n \<and> drop (length n - 4) n = ''.pdf'')"

definition glob_pdf :: "'d env \<Rightarrow> string \<Rightarrow> string list" where
  "glob_pdf env dir = filter is_pdf (listdir env dir)"

definition path_join :: "string \<Rightarrow> string \<Rightarrow> string" where
  "path_join dir n = dir @ ''/'' @ n"

definition stem :: "string \<Rightarrow> string" where
  "stem n =
     (let i = length n - 1 - length (takeWhile (\<lambda>c. c \<noteq> CHR ''.'') (rev n))
      in if CHR ''.'' \<in> set n \<and> 0 < i \<and> i < length n - 1 then take i n else n)"

text \<open>\<^verbatim>\<open>x or default\<close> on an optional string: \<^verbatim>\<open>None\<close> and the empty string are falsy.\<close>

definition py_or :: "string option \<Rightarrow> string \<Rightarrow> string" where
  "py_or x d = (case x of None \<Rightarrow> d | Some v \<Rightarrow> if v = [] then d else v)"

text \<open>
  Modelled from the spec: \<^verbatim>\<open>RAGPipeline._chunk_document\<close> is not part of the source at hand.
  Glossary: "Chunk: a segment of parsed document text with attached project/year metadata,
  stored as one vector-store row." The segments of the document (text, vector and the
  metadata the file gives them) come from the environment and may fail; every segment gets
  the project and the year attached, under the keys \<^verbatim>\<open>project\<close> and \<^verbatim>\<open>tahun\<close> that
  \<^verbatim>\<open>get_vectorstore_stats\<close> reads.
\<close>

definition chunk_document ::
  "'d env \<Rightarrow> 'd \<Rightarrow> string \<Rightarrow> string \<Rightarrow> string \<Rightarrow> error + row list" where
  "chunk_document env doc filename project tahun =
     (case segments env doc filename of
        Inl e \<Rightarrow> Inl e
      | Inr rows \<Rightarrow>
          Inr (map (\<lambda>r. r\<lparr>metadata :=
                           dict_set ''tahun'' (VStr tahun)
                             (dict_set ''project'' (VStr project) (metadata r))\<rparr>) rows))"

text \<open>
  The loop of \<^verbatim>\<open>add_product_knowledge\<close>: convert the PDF and chunk the document; an
  exception of either is logged and the file is skipped.
\<close>

fun product_loop ::
  "'d env \<Rightarrow> string \<Rightarrow> string \<Rightarrow> string \<Rightarrow> string list \<Rightarrow> row list \<Rightarrow> row list" where
  "product_loop env dir project_name tahun [] entries = entries"
| "product_loop env dir project_name tahun (pdf # pdfs) entries =
     (case convert env (path_join dir pdf) of
        Inl e \<Rightarrow> product_loop env dir project_name tahun pdfs entries
      | Inr doc \<Rightarrow>
          (case chunk_document env doc pdf project_name tahun of
             Inl e \<Rightarrow> product_loop env dir project_name tahun pdfs entries
           | Inr chunks \<Rightarrow> product_loop env dir project_name tahun pdfs (entries @ chunks)))"

text \<open>
  \<^verbatim>\<open>add_product_knowledge\<close>. A missing \<^verbatim>\<open>base_dir\<close> is the configured path; the defaults of
  \<^verbatim>\<open>project_name\<close> and \<^verbatim>\<open>tahun\<close> are the caller's.
\<close>

definition add_product_knowledge ::
  "'d env \<Rightarrow> string option \<Rightarrow> string \<Rightarrow> string \<Rightarrow> rag \<Rightarrow> rag" where
  "add_product_knowledge env base_dir project_name tahun s =
     (let dir = (case base_dir of None \<Rightarrow> knowledge_base_path env | Some d \<Rightarrow> d);
          pdf_files = glob_pdf env dir
      in if pdf_files = [] then s
         else
           let entries = product_loop env dir project_name tahun pdf_files []
           in if entries \<noteq> [] then s\<lparr>table := table_add (table s) entries\<rparr> else s)"

text \<open>
  The loop of \<^verbatim>\<open>add_kak_tor_knowledge\<close>: convert, export to Markdown, write the Markdown
  file, chunk. An exception of any step is logged and the rest of the steps for that file
  is skipped; a file written before the exception stays.
\<close>

fun kak_tor_loop ::
  "'d env \<Rightarrow> string \<Rightarrow> string \<Rightarrow> string option \<Rightarrow> string option \<Rightarrow> string list
     \<Rightarrow> row list \<times> (string \<times> string) list \<Rightarrow> row list \<times> (string \<times> string) list" where
  "kak_tor_loop env dir md_dir project tahun [] acc = acc"
| "kak_tor_loop env dir md_dir project tahun (pdf # pdfs) acc =
     (case convert env (path_join dir pdf) of
        Inl e \<Rightarrow> kak_tor_loop env dir md_dir project tahun pdfs acc
      | Inr doc \<Rightarrow>
          (case export_to_markdown env doc of
             Inl e \<Rightarrow> kak_tor_loop env dir md_dir project tahun pdfs acc
           | Inr md_content \<Rightarrow>
               (let out_md = path_join md_dir (stem pdf @ ''.md'')
                in if write_raises env out_md
                   then kak_tor_loop env dir md_dir project tahun pdfs acc
                   else
                     let files = dict_set out_md md_content (snd acc)
                     in (case chunk_document env doc pdf
                                (py_or project ''kak_tor'') (py_or tahun ''2025'') of
                           Inl e \<Rightarrow>
                             kak_tor_loop env dir md_dir project tahun pdfs (fst acc, files)
                         | Inr chunks \<Rightarrow>
                             kak_tor_loop env dir md_dir project tahun pdfs
                               (fst acc @ chunks, files)))))"

text \<open>
  \<^verbatim>\<open>add_kak_tor_knowledge\<close>. Creating the directory \<^verbatim>\<open>md_dir\<close> leaves no trace in the state,
  which holds files only.
\<close>

definition add_kak_tor_knowledge ::
  "'d env \<Rightarrow> string option \<Rightarrow> string option \<Rightarrow> string option \<Rightarrow> string option \<Rightarrow> rag \<Rightarrow> rag"
  where
  "add_kak_tor_knowledge env base_dir md_dir project tahun s =
     (let dir = (case base_dir of None \<Rightarrow> kak_tor_base_path env | Some d \<Rightarrow> d);
          md = (case md_dir of None \<Rightarrow> kak_tor_md_base_path env | Some d \<Rightarrow> d);
          pdf_files = glob_pdf env dir
      in if pdf_files = [] then s
         else
           let (entries, files) = kak_tor_loop env dir md project tahun pdf_files ([], md_files s);
               s1 = s\<lparr>md_files := files\<rparr>
           in if entries \<noteq> [] then s1\<lparr>table := table_add (table s1) entries\<rparr> else s1)"

text \<open>
  The directories the two functions work on: the argument, or the configured path when the
  argument is missing.
\<close>

definition product_dir :: "'d env \<Rightarrow> string option \<Rightarrow> string" where
  "product_dir env base_dir = (case base_dir of None \<Rightarrow> knowledge_base_path env | Some d \<Rightarrow> d)"

definition kak_tor_dir :: "'d env \<Rightarrow> string option \<Rightarrow> string" where
  "kak_tor_dir env base_dir = (case base_dir of None \<Rightarrow> kak_tor_base_path env | Some d \<Rightarrow> d)"

definition kak_tor_md_dir :: "'d env \<Rightarrow> string option \<Rightarrow> string" where
  "kak_tor_md_dir env md_dir = (case md_dir of None \<Rightarrow> kak_tor_md_base_path env | Some d \<Rightarrow> d)"

text \<open>
  The chunks one PDF contributes to a run of \<^verbatim>\<open>add_product_knowledge\<close> and of
  \<^verbatim>\<open>add_kak_tor_knowledge\<close>: those of its document, and none when a step for that file
  raises.
\<close>

definition product_chunks ::
  "'d env \<Rightarrow> string \<Rightarrow> string \<Rightarrow> string \<Rightarrow> string \<Rightarrow> row list" where
  "product_chunks env dir project_name tahun pdf =
     (case convert env (path_join dir pdf) of
        Inl e \<Rightarrow> []
      | Inr doc \<Rightarrow>
          (case chunk_document env doc pdf project_name tahun of
             Inl e \<Rightarrow> []
           | Inr chunks \<Rightarrow> chunks))"

definition kak_tor_chunks ::
  "'d env \<Rightarrow> string \<Rightarrow> string \<Rightarrow> string option \<Rightarrow> string option \<Rightarrow> string \<Rightarrow> row list" where
  "kak_tor_chunks env dir md_dir project tahun pdf =
     (case convert env (path_join dir pdf) of
        Inl e \<Rightarrow> []
      | Inr doc \<Rightarrow>
          (case export_to_markdown env doc of
             Inl e \<Rightarrow> []
           | Inr md_content \<Rightarrow>
               if write_raises env (path_join md_dir (stem pdf @ ''.md'')) then []
               else
                 (case chunk_document env doc pdf
                         (py_or project ''kak_tor'') (py_or tahun ''2025'') of
                    Inl e \<Rightarrow> []
                  | Inr chunks \<Rightarrow> chunks)))"

section \<open>Retrieval\<close>

text \<open>
  Modelled from the spec: \<^verbatim>\<open>RAGPipeline.retrieval\<close> is not part of the source at hand. The
  system "serves metadata-filtered semantic retrieval" from a vector table "supporting
  filtered search": the answer is read off the rows of the table (by the environment's
  \<open>retrieve\<close>, which may raise), and the state stays as it is.
\<close>

definition pipeline_retrieval ::
  "'d env \<Rightarrow> rag \<Rightarrow> string \<Rightarrow> int option \<Rightarrow> mdict option \<Rightarrow> (error + string) \<times> rag" where
  "pipeline_retrieval env s query k metadata_filter =
     (retrieve env (table s) query k metadata_filter, s)"

text \<open>\<^verbatim>\<open>retrieval_with_filter\<close>: the one call, with the three arguments by keyword.\<close>

definition retrieval_with_filter ::
  "'d env \<Rightarrow> string \<Rightarrow> int option \<Rightarrow> mdict option \<Rightarrow> rag \<Rightarrow> (error + string) \<times> rag" where
  "retrieval_with_filter env query k metadata_filter s =
     pipeline_retrieval env s query k metadata_filter"

section \<open>Statistics\<close>

text \<open>
  The pandas operations of \<^verbatim>\<open>get_vectorstore_stats\<close>: \<^verbatim>\<open>dropna\<close> removes \<^verbatim>\<open>None\<close>, \<^verbatim>\<open>unique\<close>
  keeps the first appearance of each value, \<^verbatim>\<open>value_counts().to_dict()\<close> maps each value
  to the number of its appearances (the keys are listed here by first appearance; a Python
  dictionary is compared regardless of the order of its keys).
\<close>

definition dropna :: "mval list \<Rightarrow> mval list" where
  "dropna xs = filter (\<lambda>v. v \<noteq> VNone) xs"

fun unique_from :: "'a list \<Rightarrow> 'a list \<Rightarrow> 'a list" where
  "unique_from seen [] = seen"
| "unique_from seen (x # xs) =
     (if x \<in> set seen then unique_from seen xs else unique_from (seen @ [x]) xs)"

definition unique :: "'a list \<Rightarrow> 'a list" where
  "unique xs = unique_from [] xs"

definition value_counts :: "'a list \<Rightarrow> ('a \<times> nat) list" where
  "value_counts xs = map (\<lambda>v. (v, count_list xs v)) (unique xs)"

text \<open>
  The result of \<^verbatim>\<open>get_vectorstore_stats\<close>. Its fourth key, \<^verbatim>\<open>size_mb\<close>, is a floating-point
  number computed from the sizes of the files of the store on disk; it is not part of this
  record.
\<close>

record stats =
  total_rows :: nat
  projects :: "mval list"
  tahun_distribution :: "(mval \<times> nat) list"

definition get_vectorstore_stats :: "rag \<Rightarrow> stats \<times> rag" where
  "get_vectorstore_stats s =
     (let total = count_rows (table s);
          df = table s;
          projects = unique (dropna (map (\<lambda>r. dict_get (metadata r) ''project'') df));
          tahun_dist = value_counts (dropna (map (\<lambda>r. dict_get (metadata r) ''tahun'') df))
      in (\<lparr>total_rows = total, projects = projects, tahun_distribution = tahun_dist\<rparr>, s))"

section \<open>Examples\<close>

definition row_a :: row where
  "row_a = \<lparr>chunk_text = ''alpha text'', vector = [1, 0],
            metadata = [(''project'', VStr ''Alpha''), (''tahun'', VStr ''2023'')]\<rparr>"

definition row_b :: row where
  "row_b = \<lparr>chunk_text = ''beta text'', vector = [0, 1],
            metadata = [(''project'', VStr ''Beta''), (''tahun'', VStr ''2024'')]\<rparr>"

definition row_empty :: row where
  "row_empty = \<lparr>chunk_text = [], vector = [0, 0], metadata = [(''project'', VStr ''Alpha'')]\<rparr>"

text \<open>
  An environment for the examples. Its engine understands one filter expression, the one
  built from \<^verbatim>\<open>{"project": "Alpha"}\<close>, and selects no row for any other; its embedding
  client raises on the empty text; its converter raises on every path that ends in
  \<^verbatim>\<open>bad.pdf\<close>; a document is the path it was converted from.
\<close>

definition alpha_filter :: mdict where
  "alpha_filter = [(''project'', VStr ''Alpha'')]"

definition gamma_filter :: mdict where
  "gamma_filter = [(''project'', VStr ''Gamma'')]"

definition year_2024 :: mdict where
  "year_2024 = [(''tahun'', VStr ''2024'')]"

definition demo_env :: "string env" where
  "demo_env =
     \<lparr>sat = (\<lambda>e r. e = build_filter_expr alpha_filter
                \<and> dict_get (metadata r) ''project'' = VStr ''Alpha''),
      delete_raises = (\<lambda>e. False),
      embed_query = (\<lambda>t. if t = [] then Inl EmbedError else Inr [real (length t), 1]),
      validate_vector_dim = (\<lambda>v. if length v = 2 then Inr () else Inl DimError),
      vector_dim = 2,
      convert = (\<lambda>p. if drop (length p - 7) p = ''bad.pdf'' then Inl ConvertError else Inr p),
      export_to_markdown = (\<lambda>d. Inr (''# '' @ d)),
      segments =
        (\<lambda>d n. Inr [\<lparr>chunk_text = d, vector = [1, 1], metadata = [(''source'', VStr n)]\<rparr>]),
      listdir =
        (\<lambda>d. if d = ''kb'' then [''a.pdf'', ''notes.txt'', ''bad.pdf'']
             else if d = ''notes'' then [''readme.md'']
             else if d = ''broken'' then [''bad.pdf'', ''verybad.pdf'']
             else []),
      write_raises = (\<lambda>p. False),
      retrieve = (\<lambda>rows q k f. Inr (concat (map chunk_text rows))),
      knowledge_base_path = ''kb'',
      kak_tor_base_path = ''kak'',
      kak_tor_md_base_path = ''kak_md''\<rparr>"

text \<open>The same environment with an engine whose delete raises.\<close>

definition raising_env :: "string env" where
  "raising_env = demo_env\<lparr>delete_raises := (\<lambda>e. True)\<rparr>"

text \<open>The same environment with a dimension check that accepts three components only.\<close>

definition strict_env :: "string env" where
  "strict_env =
     demo_env\<lparr>validate_vector_dim := (\<lambda>v. if length v = 3 then Inr () else Inl DimError)\<rparr>"

definition demo_state :: rag where
  "demo_state = \<lparr>table = [row_a, row_b], md_files = []\<rparr>"

lemmas demo_defs =
  demo_env_def raising_env_def demo_state_def row_a_def row_b_def row_empty_def
  alpha_filter_def gamma_filter_def year_2024_def
  build_filter_expr_def clause_def format_val_def dict_get_def

section \<open>Dictionaries\<close>

lemma map_of_dict_set: "map_of (dict_set k v d) = (map_of d)(k \<mapsto> v)"
  by (induction d) auto

lemma dict_merge_other:
  "k \<notin> fst ` set new \<Longrightarrow> map_of (dict_merge old new) k = map_of old k"
  unfolding dict_merge_def
  by (induction new arbitrary: old) (auto simp: map_of_dict_set)

lemma dict_merge_new:
  "k \<in> fst ` set new \<Longrightarrow> \<exists>v. (k, v) \<in> set new \<and> map_of (dict_merge old new) k = Some v"
proof (induction new arbitrary: old)
  case Nil
  then show ?case by simp
next
  case (Cons p new)
  obtain k' v' where p: "p = (k', v')" by (cases p)
  have step: "dict_merge old (p # new) = dict_merge (dict_set k' v' old) new"
    by (simp add: dict_merge_def p)
  show ?case
  proof (cases "k \<in> fst ` set new")
    case True
    from Cons.IH [OF True, of "dict_set k' v' old"] step show ?thesis by auto
  next
    case False
    with Cons.prems p have k: "k = k'" by auto
    have "map_of (dict_merge old (p # new)) k = map_of (dict_set k' v' old) k"
      using False step by (simp add: dict_merge_other)
    also have "\<dots> = Some v'" by (simp add: k map_of_dict_set)
    finally show ?thesis using p k by auto
  qed
qed

section \<open>Properties of update\_chunk\_metadata\<close>

lemma filter_none_keeps_all: "filter P xs = [] \<Longrightarrow> filter (\<lambda>x. \<not> P x) xs = xs"
  by (induction xs) (auto split: if_splits)



lemma update_table:
  "table (snd (update_chunk_metadata env mf new s)) =
     (if delete_raises env (build_filter_expr mf) then table s
      else filter (\<lambda>r. \<not> sat env (build_filter_expr mf) r) (table s))
     @ map (updated_entry new) (matched env mf s)"
  by (simp add: update_chunk_metadata_def Let_def matched_def table_search_def table_delete_def
        table_add_def filter_none_keeps_all)

lemma update_md_files:
  "md_files (snd (update_chunk_metadata env mf new s)) = md_files s"
  by (simp add: update_chunk_metadata_def Let_def table_delete_def)



lemma updated_entry_fields:
  "chunk_text (updated_entry new r) = chunk_text r"
  "vector (updated_entry new r) = vector r"
  "metadata (updated_entry new r) = dict_merge (metadata r) new"
  by (simp_all add: updated_entry_def)

text \<open>
  Claim C2, as amended. Provided the engine's delete of the old rows does not raise, the
  rewrite changes metadata only: the table afterwards holds the rows the filter does not
  select, as they were, followed by one entry for each selected row, with the text and the
  vector of that row and with its metadata merged with \<open>new_metadata\<close>: a key of
  \<open>new_metadata\<close> has a value that \<open>new_metadata\<close> gives it, every other key has the value it
  had. The Markdown files are untouched.
\<close>

theorem metadata_rewrite_frame:
  assumes "\<not> delete_raises env (build_filter_expr metadata_filter)"
  shows "table (snd (update_chunk_metadata env metadata_filter new_metadata s))
           = filter (\<lambda>r. \<not> sat env (build_filter_expr metadata_filter) r) (table s)
             @ map (updated_entry new_metadata)
                 (filter (sat env (build_filter_expr metadata_filter)) (table s))
         \<and> md_files (snd (update_chunk_metadata env metadata_filter new_metadata s)) = md_files s
         \<and> (\<forall>r. chunk_text (updated_entry new_metadata r) = chunk_text r
                \<and> vector (updated_entry new_metadata r) = vector r
                \<and> (\<forall>k. if k \<in> fst ` set new_metadata
                        then \<exists>v. (k, v) \<in> set new_metadata
                               \<and> map_of (metadata (updated_entry new_metadata r)) k = Some v
                        else map_of (metadata (updated_entry new_metadata r)) k
                               = map_of (metadata r) k))"
  using assms
  by (simp add: update_table update_md_files matched_def table_search_def updated_entry_fields
        dict_merge_other dict_merge_new)

theorem metadata_rewrite_frame_witness:
  "\<not> delete_raises demo_env (build_filter_expr alpha_filter)
   \<and> table (snd (update_chunk_metadata demo_env alpha_filter year_2024 demo_state))
       = [row_b,
          \<lparr>chunk_text = ''alpha text'', vector = [1, 0],
           metadata = [(''project'', VStr ''Alpha''), (''tahun'', VStr ''2024'')]\<rparr>]"
  using metadata_rewrite_frame [of demo_env alpha_filter year_2024 demo_state]
  by (simp add: demo_defs updated_entry_def dict_merge_def)

text \<open>
  Claim C2 as stated fails when the delete raises: the exception is caught, the rewritten
  entries are added all the same, and the selected row stays in the table with the metadata
  it had (year 2023, where the merged metadata has 2024).
\<close>

theorem metadata_rewrite_counterexample:
  "sat raising_env (build_filter_expr alpha_filter) row_a
   \<and> table (snd (update_chunk_metadata raising_env alpha_filter year_2024 demo_state))
       = [row_a, row_b, updated_entry year_2024 row_a]
   \<and> table (snd (update_chunk_metadata raising_env alpha_filter year_2024 demo_state))
       \<noteq> [row_b, updated_entry year_2024 row_a]
   \<and> dict_get (metadata row_a) ''tahun'' = VStr ''2023''
   \<and> dict_get (dict_merge (metadata row_a) year_2024) ''tahun'' = VStr ''2024''"
  by (simp add: update_table matched_def table_search_def demo_defs dict_merge_def)




section \<open>Properties of rebuild\_all\_embeddings\<close>

lemma rebuild_loop_ok:
  "\<forall>r \<in> set rows. \<exists>v. embed_query env (chunk_text r) = Inr v \<and> validate_vector_dim env v = Inr ()
   \<Longrightarrow> \<exists>new. rebuild_loop env rows entries = Inr (entries @ new)
         \<and> list_all2 (\<lambda>old n. chunk_text n = chunk_text old \<and> metadata n = metadata old
                        \<and> embed_query env (chunk_text old) = Inr (vector n)) rows new"
proof (induction rows arbitrary: entries)
  case Nil
  then show ?case by simp
next
  case (Cons r rows)
  from Cons.prems obtain v where v: "embed_query env (chunk_text r) = Inr v"
    "validate_vector_dim env v = Inr ()" by auto
  let ?e = "\<lparr>chunk_text = chunk_text r, vector = v, metadata = metadata r\<rparr>"
  from Cons.prems have rest: "\<forall>r \<in> set rows. \<exists>v. embed_query env (chunk_text r) = Inr v
      \<and> validate_vector_dim env v = Inr ()" by simp
  from Cons.IH [OF rest, of "entries @ [?e]"] obtain new where
    new: "rebuild_loop env rows (entries @ [?e]) = Inr ((entries @ [?e]) @ new)"
    "list_all2 (\<lambda>old n. chunk_text n = chunk_text old \<and> metadata n = metadata old
                        \<and> embed_query env (chunk_text old) = Inr (vector n)) rows new"
    by blast
  have "rebuild_loop env (r # rows) entries = Inr (entries @ (?e # new))"
    using v new(1) by simp
  moreover have "list_all2 (\<lambda>old n. chunk_text n = chunk_text old \<and> metadata n = metadata old
                        \<and> embed_query env (chunk_text old) = Inr (vector n)) (r # rows) (?e # new)"
    using v new(2) by simp
  ultimately show ?case by blast
qed

lemma rebuild_loop_raises:
  "\<exists>r \<in> set rows. (\<exists>e. embed_query env (chunk_text r) = Inl e)
       \<or> (\<exists>v e. embed_query env (chunk_text r) = Inr v \<and> validate_vector_dim env v = Inl e)
   \<Longrightarrow> \<exists>e. rebuild_loop env rows entries = Inl e"
proof (induction rows arbitrary: entries)
  case Nil
  then show ?case by simp
next
  case (Cons r rows)
  show ?case
  proof (cases "embed_query env (chunk_text r)")
    case (Inl e)
    then show ?thesis by simp
  next
    case (Inr v)
    show ?thesis
    proof (cases "validate_vector_dim env v")
      case (Inl e)
      with Inr show ?thesis by simp
    next
      case ok: (Inr u)
      with Inr Cons.prems have "\<exists>r \<in> set rows. (\<exists>e. embed_query env (chunk_text r) = Inl e)
         \<or> (\<exists>v e. embed_query env (chunk_text r) = Inr v \<and> validate_vector_dim env v = Inl e)"
        by auto
      from Cons.IH [OF this] Inr ok show ?thesis by simp
    qed
  qed
qed

text \<open>
  Claim C3. When every row's text can be embedded and its vector passes the dimension
  check, \<^verbatim>\<open>rebuild_all_embeddings\<close> returns normally, and the table afterwards has one row for
  each row it had, in the same order: the same text, the same metadata, and as vector the
  embedding of that text. The row count is the same, and the Markdown files are untouched.
\<close>

theorem rebuild_all_embeddings_reembeds:
  assumes "\<forall>r \<in> set (table s).
             \<exists>v. embed_query env (chunk_text r) = Inr v \<and> validate_vector_dim env v = Inr ()"
  shows "fst (rebuild_all_embeddings env batch_size s) = Inr ()
         \<and> list_all2 (\<lambda>old n. chunk_text n = chunk_text old \<and> metadata n = metadata old
                          \<and> embed_query env (chunk_text old) = Inr (vector n))
             (table s) (table (snd (rebuild_all_embeddings env batch_size s)))
         \<and> length (table (snd (rebuild_all_embeddings env batch_size s))) = length (table s)
         \<and> md_files (snd (rebuild_all_embeddings env batch_size s)) = md_files s"
proof -
  from rebuild_loop_ok [OF assms, of "[]"] obtain new where
    new: "rebuild_loop env (table s) [] = Inr new"
    "list_all2 (\<lambda>old n. chunk_text n = chunk_text old \<and> metadata n = metadata old
                        \<and> embed_query env (chunk_text old) = Inr (vector n)) (table s) new"
    by auto
  from new(2) have "length new = length (table s)"
    by (simp add: list_all2_lengthD)
  with new show ?thesis
    by (simp add: rebuild_all_embeddings_def reset_vectorstore_def table_add_def Let_def)
qed

theorem rebuild_all_embeddings_reembeds_witness:
  "(\<exists>v. embed_query demo_env (chunk_text row_a) = Inr v \<and> validate_vector_dim demo_env v = Inr ())
   \<and> (\<exists>v. embed_query demo_env (chunk_text row_b) = Inr v \<and> validate_vector_dim demo_env v = Inr ())
   \<and> rebuild_all_embeddings demo_env 100 demo_state
       = (Inr (), \<lparr>table = [row_a\<lparr>vector := [10, 1]\<rparr>, row_b\<lparr>vector := [9, 1]\<rparr>], md_files = []\<rparr>)"
  using rebuild_all_embeddings_reembeds [of demo_state demo_env 100]
  by (simp add: demo_defs rebuild_all_embeddings_def reset_vectorstore_def table_add_def)

text \<open>
  Claim C9. When embedding the text of some row raises, or validating the dimension of its
  vector does, \<^verbatim>\<open>rebuild_all_embeddings\<close> raises, and the state is the one before the call:
  the loop comes before the reset of the store.
\<close>

theorem rebuild_all_embeddings_atomic:
  assumes "\<exists>r \<in> set (table s).
             (\<exists>e. embed_query env (chunk_text r) = Inl e)
             \<or> (\<exists>v e. embed_query env (chunk_text r) = Inr v \<and> validate_vector_dim env v = Inl e)"
  shows "\<exists>e. rebuild_all_embeddings env batch_size s = (Inl e, s)"
  using rebuild_loop_raises [OF assms, of "[]"]
  by (auto simp: rebuild_all_embeddings_def)

theorem rebuild_all_embeddings_atomic_witness:
  "row_empty \<in> set (table (demo_state\<lparr>table := [row_a, row_empty, row_b]\<rparr>))
   \<and> embed_query demo_env (chunk_text row_empty) = Inl EmbedError
   \<and> rebuild_all_embeddings demo_env 100 (demo_state\<lparr>table := [row_a, row_empty, row_b]\<rparr>)
       = (Inl EmbedError, demo_state\<lparr>table := [row_a, row_empty, row_b]\<rparr>)
   \<and> row_b \<in> set (table demo_state)
   \<and> embed_query strict_env (chunk_text row_b) = Inr [9, 1]
   \<and> validate_vector_dim strict_env [9, 1] = Inl DimError
   \<and> rebuild_all_embeddings strict_env 100 demo_state = (Inl DimError, demo_state)"
  using rebuild_all_embeddings_atomic
          [of "demo_state\<lparr>table := [row_a, row_empty, row_b]\<rparr>" demo_env 100]
        rebuild_all_embeddings_atomic [of demo_state strict_env 100]
  by (simp add: demo_defs strict_env_def rebuild_all_embeddings_def)

text \<open>
  Claim C10. The result of \<^verbatim>\<open>rebuild_all_embeddings\<close>, the exception it may raise and the
  state afterwards, is the same for any two values of \<open>batch_size\<close>, the positive ones among
  them: the argument is never read.
\<close>

theorem rebuild_all_embeddings_batch_size:
  "rebuild_all_embeddings env b1 s = rebuild_all_embeddings env b2 s"
  by (simp add: rebuild_all_embeddings_def)

section \<open>Properties of ingestion\<close>

lemma product_loop_chunks:
  "product_loop env dir p t pdfs entries
     = entries @ concat (map (product_chunks env dir p t) pdfs)"
  by (induction pdfs arbitrary: entries)
     (auto simp: product_chunks_def split: sum.splits)

lemma kak_tor_loop_chunks:
  "fst (kak_tor_loop env dir md p t pdfs acc)
     = fst acc @ concat (map (kak_tor_chunks env dir md p t) pdfs)"
  by (induction pdfs arbitrary: acc)
     (auto simp: kak_tor_chunks_def Let_def split: sum.splits)

lemma dict_get_dict_set:
  "dict_get (dict_set k v d) k' = (if k' = k then v else dict_get d k')"
  by (simp add: dict_get_def map_of_dict_set)

lemma chunk_document_metadata:
  "chunk_document env doc n p t = Inr chunks \<Longrightarrow> r \<in> set chunks \<Longrightarrow>
   dict_get (metadata r) ''project'' = VStr p \<and> dict_get (metadata r) ''tahun'' = VStr t"
  by (auto simp: chunk_document_def dict_get_dict_set split: sum.splits)

lemma product_chunks_metadata:
  assumes "r \<in> set (product_chunks env dir p t pdf)"
  shows "dict_get (metadata r) ''project'' = VStr p \<and> dict_get (metadata r) ''tahun'' = VStr t"
proof (cases "convert env (path_join dir pdf)")
  case (Inl e)
  with assms show ?thesis by (simp add: product_chunks_def)
next
  case (Inr doc)
  show ?thesis
  proof (cases "chunk_document env doc pdf p t")
    case (Inl e)
    with Inr assms show ?thesis by (simp add: product_chunks_def)
  next
    case chunks: (Inr chunks)
    with Inr assms have "r \<in> set chunks" by (simp add: product_chunks_def)
    with chunks show ?thesis by (rule chunk_document_metadata)
  qed
qed

lemma kak_tor_chunks_metadata:
  assumes "r \<in> set (kak_tor_chunks env dir md p t pdf)"
  shows "dict_get (metadata r) ''project'' = VStr (py_or p ''kak_tor'')
         \<and> dict_get (metadata r) ''tahun'' = VStr (py_or t ''2025'')"
proof (cases "convert env (path_join dir pdf)")
  case (Inl e)
  with assms show ?thesis by (simp add: kak_tor_chunks_def)
next
  case (Inr doc)
  show ?thesis
  proof (cases "export_to_markdown env doc")
    case (Inl e)
    with Inr assms show ?thesis by (simp add: kak_tor_chunks_def)
  next
    case md_content: (Inr md_content)
    show ?thesis
    proof (cases "chunk_document env doc pdf (py_or p ''kak_tor'') (py_or t ''2025'')")
      case (Inl e)
      with Inr md_content assms show ?thesis by (simp add: kak_tor_chunks_def split: if_splits)
    next
      case chunks: (Inr chunks)
      with Inr md_content assms have "r \<in> set chunks"
        by (simp add: kak_tor_chunks_def split: if_splits)
      with chunks show ?thesis by (rule chunk_document_metadata)
    qed
  qed
qed

lemma add_product_table:
  "table (add_product_knowledge env base_dir p t s)
     = table s @ concat (map (product_chunks env (product_dir env base_dir) p t)
                         (glob_pdf env (product_dir env base_dir)))"
  by (simp add: add_product_knowledge_def product_dir_def Let_def product_loop_chunks table_add_def)

lemma add_kak_tor_table:
  "table (add_kak_tor_knowledge env base_dir md_dir p t s)
     = table s @ concat (map (kak_tor_chunks env (kak_tor_dir env base_dir)
                                (kak_tor_md_dir env md_dir) p t)
                         (glob_pdf env (kak_tor_dir env base_dir)))"
proof -
  let ?dir = "kak_tor_dir env base_dir"
  let ?md = "kak_tor_md_dir env md_dir"
  obtain entries files where
    loop: "kak_tor_loop env ?dir ?md p t (glob_pdf env ?dir) ([], md_files s) = (entries, files)"
    by (cases "kak_tor_loop env ?dir ?md p t (glob_pdf env ?dir) ([], md_files s)")
  from kak_tor_loop_chunks [of env ?dir ?md p t "glob_pdf env ?dir" "([], md_files s)"] loop
  have "entries = concat (map (kak_tor_chunks env ?dir ?md p t) (glob_pdf env ?dir))"
    by simp
  with loop show ?thesis
    by (simp add: add_kak_tor_knowledge_def kak_tor_dir_def kak_tor_md_dir_def Let_def
          table_add_def)
qed


lemma product_loop_all_fail:
  "\<forall>pdf \<in> set pdfs. \<exists>e. convert env (path_join dir pdf) = Inl e
   \<Longrightarrow> product_loop env dir p t pdfs entries = entries"
  by (induction pdfs arbitrary: entries) auto

lemma kak_tor_loop_all_fail:
  "\<forall>pdf \<in> set pdfs. \<exists>e. convert env (path_join dir pdf) = Inl e
   \<Longrightarrow> kak_tor_loop env dir md p t pdfs acc = acc"
  by (induction pdfs arbitrary: acc) auto

lemma glob_pdf_empty:
  "\<forall>n \<in> set (listdir env dir). \<not> is_pdf n \<Longrightarrow> glob_pdf env dir = []"
  by (simp add: glob_pdf_def filter_empty_conv)

text \<open>
  Claim C4, as amended. A run of \<^verbatim>\<open>add_product_knowledge\<close> or of \<^verbatim>\<open>add_kak_tor_knowledge\<close>
  appends to the table exactly the chunks its PDFs contribute, one row for each, so the row
  count grows by their number. Every added row carries, under \<^verbatim>\<open>project\<close> and \<^verbatim>\<open>tahun\<close>, the
  values given to \<^verbatim>\<open>add_product_knowledge\<close>; for \<^verbatim>\<open>add_kak_tor_knowledge\<close> it carries the
  given value when that is a non-empty string, and \<^verbatim>\<open>kak_tor\<close>, respectively \<^verbatim>\<open>2025\<close>,
  otherwise.
\<close>

theorem ingestion_rows:
  "table (add_product_knowledge env base_dir project_name tahun s)
     = table s @ concat (map (product_chunks env (product_dir env base_dir) project_name tahun)
                          (glob_pdf env (product_dir env base_dir)))
   \<and> length (table (add_product_knowledge env base_dir project_name tahun s))
       = length (table s)
         + sum_list (map (\<lambda>pdf. length (product_chunks env (product_dir env base_dir)
                                           project_name tahun pdf))
                      (glob_pdf env (product_dir env base_dir)))
   \<and> (\<forall>r \<in> set (drop (length (table s))
                    (table (add_product_knowledge env base_dir project_name tahun s))).
         dict_get (metadata r) ''project'' = VStr project_name
         \<and> dict_get (metadata r) ''tahun'' = VStr tahun)
   \<and> table (add_kak_tor_knowledge env base_dir' md_dir project tahun' s)
       = table s @ concat (map (kak_tor_chunks env (kak_tor_dir env base_dir')
                                  (kak_tor_md_dir env md_dir) project tahun')
                            (glob_pdf env (kak_tor_dir env base_dir')))
   \<and> length (table (add_kak_tor_knowledge env base_dir' md_dir project tahun' s))
       = length (table s)
         + sum_list (map (\<lambda>pdf. length (kak_tor_chunks env (kak_tor_dir env base_dir')
                                           (kak_tor_md_dir env md_dir) project tahun' pdf))
                      (glob_pdf env (kak_tor_dir env base_dir')))
   \<and> (\<forall>r \<in> set (drop (length (table s))
                    (table (add_kak_tor_knowledge env base_dir' md_dir project tahun' s))).
         dict_get (metadata r) ''project'' = VStr (py_or project ''kak_tor'')
         \<and> dict_get (metadata r) ''tahun'' = VStr (py_or tahun' ''2025''))"
  by (auto simp: add_product_table add_kak_tor_table length_concat comp_def
           dest: product_chunks_metadata kak_tor_chunks_metadata)

lemma demo_glob_kb: "glob_pdf demo_env ''kb'' = [''a.pdf'', ''bad.pdf'']"
  by (simp add: demo_env_def glob_pdf_def is_pdf_def)

lemma demo_convert_a: "convert demo_env (path_join ''kb'' ''a.pdf'') = Inr ''kb/a.pdf''"
  by (simp add: demo_env_def path_join_def)

lemma demo_convert_bad: "convert demo_env (path_join ''kb'' ''bad.pdf'') = Inl ConvertError"
  by (simp add: demo_env_def path_join_def)

lemma demo_chunk_document:
  "chunk_document demo_env doc n p t
     = Inr [\<lparr>chunk_text = doc, vector = [1, 1],
             metadata = [(''source'', VStr n), (''project'', VStr p), (''tahun'', VStr t)]\<rparr>]"
  by (simp add: chunk_document_def demo_env_def)

lemma demo_export: "export_to_markdown demo_env doc = Inr (''# '' @ doc)"
  by (simp add: demo_env_def)

lemma demo_write: "\<not> write_raises demo_env p"
  by (simp add: demo_env_def)

theorem ingestion_rows_witness:
  "table (add_product_knowledge demo_env None ''P'' ''2026'' demo_state)
     = [row_a, row_b,
        \<lparr>chunk_text = ''kb/a.pdf'', vector = [1, 1],
         metadata = [(''source'', VStr ''a.pdf''), (''project'', VStr ''P''),
                     (''tahun'', VStr ''2026'')]\<rparr>]
   \<and> table (add_kak_tor_knowledge demo_env (Some ''kb'') None (Some ''Q'') None demo_state)
     = [row_a, row_b,
        \<lparr>chunk_text = ''kb/a.pdf'', vector = [1, 1],
         metadata = [(''source'', VStr ''a.pdf''), (''project'', VStr ''Q''),
                     (''tahun'', VStr ''2025'')]\<rparr>]"
proof -
  note rows = ingestion_rows [of demo_env None "''P''" "''2026''" demo_state "Some ''kb''" None
      "Some ''Q''" None]
  have dir: "product_dir demo_env None = ''kb''" "kak_tor_dir demo_env (Some ''kb'') = ''kb''"
    by (simp_all add: product_dir_def kak_tor_dir_def demo_env_def)
  have tab: "table demo_state = [row_a, row_b]"
    by (simp add: demo_state_def)
  have p: "concat (map (product_chunks demo_env ''kb'' ''P'' ''2026'') [''a.pdf'', ''bad.pdf''])
             = [\<lparr>chunk_text = ''kb/a.pdf'', vector = [1, 1],
                 metadata = [(''source'', VStr ''a.pdf''), (''project'', VStr ''P''),
                             (''tahun'', VStr ''2026'')]\<rparr>]"
    by (simp add: product_chunks_def demo_convert_a demo_convert_bad demo_chunk_document)
  have k: "concat (map (kak_tor_chunks demo_env ''kb'' (kak_tor_md_dir demo_env None)
                          (Some ''Q'') None) [''a.pdf'', ''bad.pdf''])
             = [\<lparr>chunk_text = ''kb/a.pdf'', vector = [1, 1],
                 metadata = [(''source'', VStr ''a.pdf''), (''project'', VStr ''Q''),
                             (''tahun'', VStr ''2025'')]\<rparr>]"
    by (simp add: kak_tor_chunks_def demo_convert_a demo_convert_bad demo_chunk_document
          demo_export demo_write py_or_def)
  from rows have "table (add_product_knowledge demo_env None ''P'' ''2026'' demo_state)
      = table demo_state @ concat (map (product_chunks demo_env (product_dir demo_env None)
            ''P'' ''2026'') (glob_pdf demo_env (product_dir demo_env None)))"
    by (rule conjunct1)
  then have first: "table (add_product_knowledge demo_env None ''P'' ''2026'' demo_state)
      = [row_a, row_b,
         \<lparr>chunk_text = ''kb/a.pdf'', vector = [1, 1],
          metadata = [(''source'', VStr ''a.pdf''), (''project'', VStr ''P''),
                      (''tahun'', VStr ''2026'')]\<rparr>]"
    by (simp only: dir demo_glob_kb p tab append.simps)
  from rows [THEN conjunct2, THEN conjunct2, THEN conjunct2, THEN conjunct1]
  have second: "table (add_kak_tor_knowledge demo_env (Some ''kb'') None (Some ''Q'') None demo_state)
      = [row_a, row_b,
         \<lparr>chunk_text = ''kb/a.pdf'', vector = [1, 1],
          metadata = [(''source'', VStr ''a.pdf''), (''project'', VStr ''Q''),
                      (''tahun'', VStr ''2025'')]\<rparr>]"
    by (simp only: dir demo_glob_kb k tab append.simps)
  from first second show ?thesis by (rule conjI)
qed

text \<open>
  Claim C4 as stated fails for \<^verbatim>\<open>add_kak_tor_knowledge\<close> given the empty string as project:
  \<^verbatim>\<open>project or "kak_tor"\<close> passes \<^verbatim>\<open>kak_tor\<close> on, and the added row carries that.
\<close>

theorem ingestion_metadata_counterexample:
  "table (add_kak_tor_knowledge demo_env (Some ''kb'') None (Some []) (Some ''2030'') demo_state)
     = [row_a, row_b,
        \<lparr>chunk_text = ''kb/a.pdf'', vector = [1, 1],
         metadata = [(''source'', VStr ''a.pdf''), (''project'', VStr ''kak_tor''),
                     (''tahun'', VStr ''2030'')]\<rparr>]
   \<and> dict_get (metadata (last (table (add_kak_tor_knowledge demo_env (Some ''kb'') None
                                        (Some []) (Some ''2030'') demo_state)))) ''project''
       \<noteq> VStr []"
  by (simp add: add_kak_tor_table demo_defs kak_tor_dir_def kak_tor_md_dir_def glob_pdf_def
        is_pdf_def kak_tor_chunks_def path_join_def stem_def py_or_def chunk_document_def)


text \<open>
  Claim C5. When the directory holds no name ending in \<^verbatim>\<open>.pdf\<close>, \<^verbatim>\<open>add_product_knowledge\<close>
  and \<^verbatim>\<open>add_kak_tor_knowledge\<close> return with the state as it was; and so they do when the
  conversion of every PDF of the directory raises: no row is added.
\<close>

theorem ingestion_nothing_to_add:
  "((\<forall>n \<in> set (listdir env (product_dir env base_dir)). \<not> is_pdf n)
      \<longrightarrow> add_product_knowledge env base_dir project_name tahun s = s)
   \<and> ((\<forall>n \<in> set (listdir env (kak_tor_dir env base_dir')). \<not> is_pdf n)
      \<longrightarrow> add_kak_tor_knowledge env base_dir' md_dir project tahun' s = s)
   \<and> ((\<forall>pdf \<in> set (glob_pdf env (product_dir env base_dir)).
          \<exists>e. convert env (path_join (product_dir env base_dir) pdf) = Inl e)
      \<longrightarrow> add_product_knowledge env base_dir project_name tahun s = s)
   \<and> ((\<forall>pdf \<in> set (glob_pdf env (kak_tor_dir env base_dir')).
          \<exists>e. convert env (path_join (kak_tor_dir env base_dir') pdf) = Inl e)
      \<longrightarrow> add_kak_tor_knowledge env base_dir' md_dir project tahun' s = s)"
proof (intro conjI impI)
  assume "\<forall>n \<in> set (listdir env (product_dir env base_dir)). \<not> is_pdf n"
  then have "glob_pdf env (product_dir env base_dir) = []" by (rule glob_pdf_empty)
  then show "add_product_knowledge env base_dir project_name tahun s = s"
    by (simp add: add_product_knowledge_def product_dir_def)
next
  assume "\<forall>n \<in> set (listdir env (kak_tor_dir env base_dir')). \<not> is_pdf n"
  then have "glob_pdf env (kak_tor_dir env base_dir') = []" by (rule glob_pdf_empty)
  then show "add_kak_tor_knowledge env base_dir' md_dir project tahun' s = s"
    by (simp add: add_kak_tor_knowledge_def kak_tor_dir_def)
next
  assume "\<forall>pdf \<in> set (glob_pdf env (product_dir env base_dir)).
            \<exists>e. convert env (path_join (product_dir env base_dir) pdf) = Inl e"
  then have "product_loop env (product_dir env base_dir) project_name tahun
               (glob_pdf env (product_dir env base_dir)) [] = []"
    by (rule product_loop_all_fail)
  then show "add_product_knowledge env base_dir project_name tahun s = s"
    by (simp add: add_product_knowledge_def product_dir_def Let_def)
next
  assume "\<forall>pdf \<in> set (glob_pdf env (kak_tor_dir env base_dir')).
            \<exists>e. convert env (path_join (kak_tor_dir env base_dir') pdf) = Inl e"
  then have "kak_tor_loop env (kak_tor_dir env base_dir') (kak_tor_md_dir env md_dir) project
               tahun' (glob_pdf env (kak_tor_dir env base_dir')) ([], md_files s)
             = ([], md_files s)"
    by (rule kak_tor_loop_all_fail)
  then show "add_kak_tor_knowledge env base_dir' md_dir project tahun' s = s"
    by (simp add: add_kak_tor_knowledge_def kak_tor_dir_def kak_tor_md_dir_def Let_def)
qed

theorem ingestion_nothing_to_add_witness:
  "listdir demo_env ''notes'' = [''readme.md''] \<and> \<not> is_pdf ''readme.md''
   \<and> add_product_knowledge demo_env (Some ''notes'') ''P'' ''2026'' demo_state = demo_state
   \<and> add_kak_tor_knowledge demo_env (Some ''notes'') None (Some ''Q'') None demo_state = demo_state
   \<and> glob_pdf demo_env ''broken'' = [''bad.pdf'', ''verybad.pdf'']
   \<and> convert demo_env (path_join ''broken'' ''bad.pdf'') = Inl ConvertError
   \<and> convert demo_env (path_join ''broken'' ''verybad.pdf'') = Inl ConvertError
   \<and> add_product_knowledge demo_env (Some ''broken'') ''P'' ''2026'' demo_state = demo_state
   \<and> add_kak_tor_knowledge demo_env (Some ''broken'') None (Some ''Q'') None demo_state = demo_state"
  using ingestion_nothing_to_add [of demo_env "Some ''notes''" "''P''" "''2026''" demo_state
          "Some ''notes''" None "Some ''Q''" None]
        ingestion_nothing_to_add [of demo_env "Some ''broken''" "''P''" "''2026''" demo_state
          "Some ''broken''" None "Some ''Q''" None]
  by (simp add: demo_env_def product_dir_def kak_tor_dir_def glob_pdf_def is_pdf_def
        path_join_def)


section \<open>Properties of retrieval\<close>

text \<open>
  Claim C6. \<^verbatim>\<open>retrieval_with_filter\<close> is the pipeline's retrieval on the same query, \<open>k\<close> and
  metadata filter: it returns that value, which is read off the table, and does nothing
  else, so the state is the one before the call.
\<close>

theorem retrieval_with_filter_delegates:
  "retrieval_with_filter env query k metadata_filter s
     = pipeline_retrieval env s query k metadata_filter
   \<and> fst (retrieval_with_filter env query k metadata_filter s)
       = retrieve env (table s) query k metadata_filter
   \<and> snd (retrieval_with_filter env query k metadata_filter s) = s"
  by (simp add: retrieval_with_filter_def pipeline_retrieval_def)

theorem retrieval_with_filter_delegates_witness:
  "retrieval_with_filter demo_env ''q'' (Some 3) (Some alpha_filter) demo_state
     = (Inr ''alpha textbeta text'', demo_state)"
  using retrieval_with_filter_delegates [of demo_env "''q''" "Some 3" "Some alpha_filter" demo_state]
  by (simp add: pipeline_retrieval_def demo_env_def demo_state_def row_a_def row_b_def)

section \<open>Properties of the statistics\<close>

lemma unique_from_set: "set (unique_from seen xs) = set seen \<union> set xs"
  by (induction xs arbitrary: seen) auto

lemma unique_from_distinct: "distinct seen \<Longrightarrow> distinct (unique_from seen xs)"
  by (induction xs arbitrary: seen) auto

lemma unique_set: "set (unique xs) = set xs"
  by (simp add: unique_def unique_from_set)

lemma unique_distinct: "distinct (unique xs)"
  by (simp add: unique_def unique_from_distinct)

lemma map_of_value_counts:
  "map_of (value_counts xs) v = (if v \<in> set xs then Some (count_list xs v) else None)"
proof -
  have "map_of (map (\<lambda>v. (v, count_list xs v)) ys) v
          = (if v \<in> set ys then Some (count_list xs v) else None)" for ys
    by (induction ys) auto
  then show ?thesis by (simp add: value_counts_def unique_set)
qed

lemma dropna_set: "set (dropna xs) = {v \<in> set xs. v \<noteq> VNone}"
  by (auto simp: dropna_def)

lemma count_dropna_map:
  "v \<noteq> VNone \<Longrightarrow> count_list (dropna (map g rows)) v = length (filter (\<lambda>r. g r = v) rows)"
  by (induction rows) (auto simp: dropna_def)

text \<open>
  Claim C7. \<^verbatim>\<open>get_vectorstore_stats\<close> returns the number of rows of the table as
  \<^verbatim>\<open>total_rows\<close>; as \<^verbatim>\<open>projects\<close> a list without repetition of exactly the values other than
  \<^verbatim>\<open>None\<close> that the rows have under \<^verbatim>\<open>project\<close>; as \<^verbatim>\<open>tahun_distribution\<close> a dictionary that
  maps each value other than \<^verbatim>\<open>None\<close> that some row has under \<^verbatim>\<open>tahun\<close> to the number of rows
  that have it, and has no other key. The state is the one before the call.
\<close>

theorem get_vectorstore_stats_correct:
  "total_rows (fst (get_vectorstore_stats s)) = length (table s)
   \<and> distinct (projects (fst (get_vectorstore_stats s)))
   \<and> set (projects (fst (get_vectorstore_stats s)))
       = {v. v \<noteq> VNone \<and> (\<exists>r \<in> set (table s). dict_get (metadata r) ''project'' = v)}
   \<and> (\<forall>v. map_of (tahun_distribution (fst (get_vectorstore_stats s))) v
           = (if v \<noteq> VNone \<and> (\<exists>r \<in> set (table s). dict_get (metadata r) ''tahun'' = v)
              then Some (length (filter (\<lambda>r. dict_get (metadata r) ''tahun'' = v) (table s)))
              else None))
   \<and> snd (get_vectorstore_stats s) = s"
proof -
  let ?st = "fst (get_vectorstore_stats s)"
  have total: "total_rows ?st = length (table s)"
    by (simp add: get_vectorstore_stats_def Let_def count_rows_def)
  have dist: "distinct (projects ?st)"
    by (simp add: get_vectorstore_stats_def Let_def unique_distinct)
  have pset: "set (projects ?st)
       = {v. v \<noteq> VNone \<and> (\<exists>r \<in> set (table s). dict_get (metadata r) ''project'' = v)}"
    by (auto simp: get_vectorstore_stats_def Let_def unique_set dropna_set)
  have tahun: "map_of (tahun_distribution ?st) v
           = (if v \<noteq> VNone \<and> (\<exists>r \<in> set (table s). dict_get (metadata r) ''tahun'' = v)
              then Some (length (filter (\<lambda>r. dict_get (metadata r) ''tahun'' = v) (table s)))
              else None)" for v
  proof (cases "v = VNone")
    case True
    then show ?thesis
      by (simp add: get_vectorstore_stats_def Let_def map_of_value_counts dropna_set)
  next
    case False
    then show ?thesis
      by (auto simp: get_vectorstore_stats_def Let_def map_of_value_counts dropna_set count_dropna_map)
  qed
  have same: "snd (get_vectorstore_stats s) = s"
    by (simp add: get_vectorstore_stats_def Let_def)
  from total dist pset tahun same show ?thesis by blast
qed

theorem get_vectorstore_stats_correct_witness:
  "get_vectorstore_stats (demo_state\<lparr>table := [row_a, row_b, row_empty]\<rparr>)
     = (\<lparr>total_rows = 3, projects = [VStr ''Alpha'', VStr ''Beta''],
         tahun_distribution = [(VStr ''2023'', 1), (VStr ''2024'', 1)]\<rparr>,
        demo_state\<lparr>table := [row_a, row_b, row_empty]\<rparr>)
   \<and> total_rows (fst (get_vectorstore_stats (demo_state\<lparr>table := [row_a, row_b, row_empty]\<rparr>)))
       = 3"
  using get_vectorstore_stats_correct [of "demo_state\<lparr>table := [row_a, row_b, row_empty]\<rparr>"]
  by (simp add: get_vectorstore_stats_def Let_def count_rows_def unique_def value_counts_def dropna_def
        demo_state_def row_a_def row_b_def row_empty_def dict_get_def)

end
